theory Spec2Isabelle
  imports Complex_Main
begin

section \<open>Python values and errors\<close>

text \<open>
  The recipes of \<^verbatim>\<open>diskcache/recipes.py\<close> keep their whole state in a shared cache.
  The values they store are \<^verbatim>\<open>None\<close>, integers, floats, strings and tuples of these.
  The type \<open>'f\<close> stands for the floats of the machine.
\<close>

datatype 'f pyval =
    PNone
  | PInt int
  | PFloat 'f
  | PStr string
  | PTuple "'f pyval list"

datatype error =
    TypeError
  | ValueError
  | ZeroDivisionError
  | OverflowError
  | AssertionError string

text \<open>
  Floating-point arithmetic is a parameter of the model: the operations on floats are
  whatever the machine computes, rounding, infinities and NaN included, and nothing is
  assumed of them. \<open>fl_of_int\<close> converts an integer within range to the nearest float,
  \<open>fl_quot\<close> is the true division of two integers (\<open>None\<close> when the quotient is too large
  for a float), \<open>fl_of_str\<close> parses the text of a float (\<open>None\<close> when it is not one).
  A comparison has four outcomes, the fourth for a NaN; Python compares a float with an
  integer exactly, without converting either, which \<open>fl_cmp_int\<close> stands for.
\<close>

datatype cmp = CmpLT | CmpEQ | CmpGT | CmpUN

record 'f float_ops =
  fl_add :: "'f \<Rightarrow> 'f \<Rightarrow> 'f"
  fl_sub :: "'f \<Rightarrow> 'f \<Rightarrow> 'f"
  fl_mul :: "'f \<Rightarrow> 'f \<Rightarrow> 'f"
  fl_div :: "'f \<Rightarrow> 'f \<Rightarrow> 'f"
  fl_of_int :: "int \<Rightarrow> 'f"
  fl_quot :: "int \<Rightarrow> int \<Rightarrow> 'f option"
  fl_of_str :: "string \<Rightarrow> 'f option"
  fl_cmp :: "'f \<Rightarrow> 'f \<Rightarrow> cmp"
  fl_cmp_int :: "'f \<Rightarrow> int \<Rightarrow> cmp"

text \<open>
  Sequencing of steps that may raise: the first exception ends the computation.
\<close>

fun err_bind :: "error + 'a \<Rightarrow> ('a \<Rightarrow> error + 'b) \<Rightarrow> error + 'b" where
  "err_bind (Inl e) f = Inl e"
| "err_bind (Inr x) f = f x"

text \<open>
  An integer that takes part in float arithmetic is converted to a double first, and
  \<^verbatim>\<open>OverflowError\<close> is raised when it rounds beyond the largest double, that is from
  \<open>2^1024 - 2^970\<close> on in absolute value.
\<close>

definition float_int_limit :: int where
  "float_int_limit = 2 ^ 1024 - 2 ^ 970"

definition int_to_float :: "'f float_ops \<Rightarrow> int \<Rightarrow> error + 'f" where
  "int_to_float ops n =
     (if float_int_limit \<le> \<bar>n\<bar> then Inl OverflowError else Inr (fl_of_int ops n))"

text \<open>
  Tuple unpacking \<^verbatim>\<open>a, b = v\<close>: a tuple of two components unpacks, a string of two
  characters unpacks into its characters, a tuple or string of another length raises
  \<^verbatim>\<open>ValueError\<close>, and \<^verbatim>\<open>None\<close> or a number raises \<^verbatim>\<open>TypeError\<close> (they are not
  iterable).
\<close>

fun unpack2 :: "'f pyval \<Rightarrow> error + ('f pyval \<times> 'f pyval)" where
  "unpack2 (PTuple [a, b]) = Inr (a, b)"
| "unpack2 (PTuple xs) = Inl ValueError"
| "unpack2 (PStr [a, b]) = Inr (PStr [a], PStr [b])"
| "unpack2 (PStr s) = Inl ValueError"
| "unpack2 v = Inl TypeError"

text \<open>
  \<^verbatim>\<open>a + b\<close>: integers add exactly, a float and an integer add as floats after the
  conversion of the integer, strings and tuples concatenate, and every other pair of
  operands raises \<^verbatim>\<open>TypeError\<close>. \<^verbatim>\<open>a - b\<close> is defined on numbers only.
\<close>

fun py_add :: "'f float_ops \<Rightarrow> 'f pyval \<Rightarrow> 'f pyval \<Rightarrow> error + 'f pyval" where
  "py_add ops (PInt a) (PInt b) = Inr (PInt (a + b))"
| "py_add ops (PInt a) (PFloat y) =
     err_bind (int_to_float ops a) (\<lambda>x. Inr (PFloat (fl_add ops x y)))"
| "py_add ops (PFloat x) (PInt b) =
     err_bind (int_to_float ops b) (\<lambda>y. Inr (PFloat (fl_add ops x y)))"
| "py_add ops (PFloat x) (PFloat y) = Inr (PFloat (fl_add ops x y))"
| "py_add ops (PStr s) (PStr t) = Inr (PStr (s @ t))"
| "py_add ops (PTuple xs) (PTuple ys) = Inr (PTuple (xs @ ys))"
| "py_add ops v w = Inl TypeError"

fun py_sub :: "'f float_ops \<Rightarrow> 'f pyval \<Rightarrow> 'f pyval \<Rightarrow> error + 'f pyval" where
  "py_sub ops (PInt a) (PInt b) = Inr (PInt (a - b))"
| "py_sub ops (PInt a) (PFloat y) =
     err_bind (int_to_float ops a) (\<lambda>x. Inr (PFloat (fl_sub ops x y)))"
| "py_sub ops (PFloat x) (PInt b) =
     err_bind (int_to_float ops b) (\<lambda>y. Inr (PFloat (fl_sub ops x y)))"
| "py_sub ops (PFloat x) (PFloat y) = Inr (PFloat (fl_sub ops x y))"
| "py_sub ops v w = Inl TypeError"

text \<open>
  True division \<^verbatim>\<open>a / b\<close> of two numbers is a float. Two integers are divided exactly
  and the quotient rounded; otherwise both operands are converted and then divided. A
  zero divisor raises \<^verbatim>\<open>ZeroDivisionError\<close>.
\<close>

definition float_div :: "'f float_ops \<Rightarrow> 'f \<Rightarrow> 'f \<Rightarrow> error + 'f" where
  "float_div ops x y =
     (if fl_cmp_int ops y 0 = CmpEQ then Inl ZeroDivisionError else Inr (fl_div ops x y))"

fun py_truediv :: "'f float_ops \<Rightarrow> 'f pyval \<Rightarrow> 'f pyval \<Rightarrow> error + 'f pyval" where
  "py_truediv ops (PInt a) (PInt b) =
     (if b = 0 then Inl ZeroDivisionError
      else (case fl_quot ops a b of None \<Rightarrow> Inl OverflowError | Some q \<Rightarrow> Inr (PFloat q)))"
| "py_truediv ops (PInt a) (PFloat y) =
     err_bind (int_to_float ops a) (\<lambda>x.
       err_bind (float_div ops x y) (\<lambda>q. Inr (PFloat q)))"
| "py_truediv ops (PFloat x) (PInt b) =
     err_bind (int_to_float ops b) (\<lambda>y.
       err_bind (float_div ops x y) (\<lambda>q. Inr (PFloat q)))"
| "py_truediv ops (PFloat x) (PFloat y) =
     err_bind (float_div ops x y) (\<lambda>q. Inr (PFloat q))"
| "py_truediv ops v w = Inl TypeError"

text \<open>
  The operations of \<^verbatim>\<open>wrapper\<close> one of whose operands is a float by what was computed
  before: \<^verbatim>\<open>v * r\<close>, \<^verbatim>\<open>v + r\<close>, \<^verbatim>\<open>v / r\<close> and \<^verbatim>\<open>r > v\<close> for a float \<open>r\<close> and any
  value \<open>v\<close>. A sequence times a float, a sequence plus a float and a comparison of a
  float with other than a number raise \<^verbatim>\<open>TypeError\<close>.
\<close>

fun py_mul_float :: "'f float_ops \<Rightarrow> 'f pyval \<Rightarrow> 'f \<Rightarrow> error + 'f" where
  "py_mul_float ops (PInt a) r = err_bind (int_to_float ops a) (\<lambda>x. Inr (fl_mul ops x r))"
| "py_mul_float ops (PFloat x) r = Inr (fl_mul ops x r)"
| "py_mul_float ops v r = Inl TypeError"

fun py_add_float :: "'f float_ops \<Rightarrow> 'f pyval \<Rightarrow> 'f \<Rightarrow> error + 'f" where
  "py_add_float ops (PInt a) r = err_bind (int_to_float ops a) (\<lambda>x. Inr (fl_add ops x r))"
| "py_add_float ops (PFloat x) r = Inr (fl_add ops x r)"
| "py_add_float ops v r = Inl TypeError"

fun py_truediv_float :: "'f float_ops \<Rightarrow> 'f pyval \<Rightarrow> 'f \<Rightarrow> error + 'f" where
  "py_truediv_float ops (PInt a) r = err_bind (int_to_float ops a) (\<lambda>x. float_div ops x r)"
| "py_truediv_float ops (PFloat x) r = float_div ops x r"
| "py_truediv_float ops v r = Inl TypeError"

fun py_float_gt :: "'f float_ops \<Rightarrow> 'f \<Rightarrow> 'f pyval \<Rightarrow> error + bool" where
  "py_float_gt ops r (PInt b) = Inr (fl_cmp_int ops r b = CmpGT)"
| "py_float_gt ops r (PFloat y) = Inr (fl_cmp ops r y = CmpGT)"
| "py_float_gt ops r v = Inl TypeError"

text \<open>
  Comparisons with an integer: \<^verbatim>\<open>v > n\<close>, \<^verbatim>\<open>n > v\<close> and \<^verbatim>\<open>v == n\<close>. The order
  comparisons raise \<^verbatim>\<open>TypeError\<close> unless \<open>v\<close> is a number; equality never raises, and
  what is not a number is not equal to one.
\<close>

fun py_gt_int :: "'f float_ops \<Rightarrow> 'f pyval \<Rightarrow> int \<Rightarrow> error + bool" where
  "py_gt_int ops (PInt a) n = Inr (a > n)"
| "py_gt_int ops (PFloat x) n = Inr (fl_cmp_int ops x n = CmpGT)"
| "py_gt_int ops v n = Inl TypeError"

fun py_int_gt :: "'f float_ops \<Rightarrow> int \<Rightarrow> 'f pyval \<Rightarrow> error + bool" where
  "py_int_gt ops n (PInt a) = Inr (n > a)"
| "py_int_gt ops n (PFloat x) = Inr (fl_cmp_int ops x n = CmpLT)"
| "py_int_gt ops n v = Inl TypeError"

fun py_eq_int :: "'f float_ops \<Rightarrow> 'f pyval \<Rightarrow> int \<Rightarrow> bool" where
  "py_eq_int ops (PInt a) n = (a = n)"
| "py_eq_int ops (PFloat x) n = (fl_cmp_int ops x n = CmpEQ)"
| "py_eq_int ops v n = False"

text \<open>\<^verbatim>\<open>s == v\<close> for a string \<open>s\<close>: only the same string is equal to it.\<close>

fun py_str_eq :: "string \<Rightarrow> 'f pyval \<Rightarrow> bool" where
  "py_str_eq s (PStr t) = (s = t)"
| "py_str_eq s v = False"

text \<open>Truth value, as in \<^verbatim>\<open>if delay:\<close>; a NaN is true.\<close>

fun py_truthy :: "'f float_ops \<Rightarrow> 'f pyval \<Rightarrow> bool" where
  "py_truthy ops PNone = False"
| "py_truthy ops (PInt a) = (a \<noteq> 0)"
| "py_truthy ops (PFloat x) = (fl_cmp_int ops x 0 \<noteq> CmpEQ)"
| "py_truthy ops (PStr s) = (s \<noteq> [])"
| "py_truthy ops (PTuple xs) = (xs \<noteq> [])"

text \<open>
  The built-in \<^verbatim>\<open>float(v)\<close>: a number is converted, a string is parsed and raises
  \<^verbatim>\<open>ValueError\<close> when it is not the text of a float, \<^verbatim>\<open>None\<close> and tuples raise
  \<^verbatim>\<open>TypeError\<close>.
\<close>

fun py_float :: "'f float_ops \<Rightarrow> 'f pyval \<Rightarrow> error + 'f" where
  "py_float ops (PInt a) = int_to_float ops a"
| "py_float ops (PFloat x) = Inr x"
| "py_float ops (PStr s) = (case fl_of_str ops s of None \<Rightarrow> Inl ValueError | Some x \<Rightarrow> Inr x)"
| "py_float ops v = Inl TypeError"

text \<open>
  Arithmetic without rounding, on the real numbers: the instance of the operations in
  which the examples below are computed. No string is parsed in it.
\<close>

definition real_cmp :: "real \<Rightarrow> real \<Rightarrow> cmp" where
  "real_cmp x y = (if x < y then CmpLT else if x = y then CmpEQ else CmpGT)"

definition exact_ops :: "real float_ops" where
  "exact_ops =
     \<lparr>fl_add = (+), fl_sub = (-), fl_mul = (*), fl_div = (/),
      fl_of_int = real_of_int,
      fl_quot = (\<lambda>a b. Some (real_of_int a / real_of_int b)),
      fl_of_str = (\<lambda>s. None),
      fl_cmp = real_cmp,
      fl_cmp_int = (\<lambda>x n. real_cmp x (real_of_int n))\<rparr>"

text \<open>
  \<^verbatim>\<open>str\<close> of an integer, for \<^verbatim>\<open>'{}-{}'.format(pid, tid)\<close>.
\<close>

definition digit_char :: "nat \<Rightarrow> char" where
  "digit_char n = ''0123456789'' ! n"

function str_nat :: "nat \<Rightarrow> string" where
  "str_nat n = (if n < 10 then [digit_char n] else str_nat (n div 10) @ [digit_char (n mod 10)])"
  by pat_completeness auto
termination
  by (relation "measure id") auto

declare str_nat.simps [simp del]

definition str_int :: "int \<Rightarrow> string" where
  "str_int i = (if i < 0 then CHR ''-'' # str_nat (nat (- i)) else str_nat (nat i))"

section \<open>The cache\<close>

text \<open>
  An entry of the cache holds the stored value together with the \<^verbatim>\<open>expire\<close> and
  \<^verbatim>\<open>tag\<close> arguments of the call that wrote it.
\<close>

record 'f entry =
  e_value :: "'f pyval"
  e_expire :: "real option"
  e_tag :: "string option"

type_synonym 'f cache = "string \<rightharpoonup> 'f entry"

text \<open>
  Modelled from the spec: the class \<^verbatim>\<open>Cache\<close> (its methods \<^verbatim>\<open>get\<close>, \<^verbatim>\<open>set\<close>,
  \<^verbatim>\<open>add\<close>, \<^verbatim>\<open>delete\<close>, \<^verbatim>\<open>pop\<close> and \<^verbatim>\<open>transact\<close>) lives in a module that is not among
  the sources. Each operation is atomic. \<^verbatim>\<open>get\<close> returns the stored value or the default;
  \<^verbatim>\<open>set\<close> is an unconditional upsert; \<^verbatim>\<open>add\<close> inserts only if the key is absent and
  returns whether it did; \<^verbatim>\<open>delete\<close> removes the key and returns whether it existed;
  \<^verbatim>\<open>pop\<close> is get-then-delete. The \<^verbatim>\<open>retry\<close> flag only governs how the store repeats an
  operation under contention and has no place in the model.
\<close>

definition cache_get :: "'f cache \<Rightarrow> string \<Rightarrow> 'f pyval \<Rightarrow> 'f pyval" where
  "cache_get c k dflt = (case c k of None \<Rightarrow> dflt | Some e \<Rightarrow> e_value e)"

definition cache_set ::
  "'f cache \<Rightarrow> string \<Rightarrow> 'f pyval \<Rightarrow> real option \<Rightarrow> string option \<Rightarrow> 'f cache" where
  "cache_set c k v ex tg = c(k \<mapsto> \<lparr>e_value = v, e_expire = ex, e_tag = tg\<rparr>)"

definition cache_add ::
  "'f cache \<Rightarrow> string \<Rightarrow> 'f pyval \<Rightarrow> real option \<Rightarrow> string option \<Rightarrow> bool \<times> 'f cache" where
  "cache_add c k v ex tg =
     (case c k of
        None \<Rightarrow> (True, c(k \<mapsto> \<lparr>e_value = v, e_expire = ex, e_tag = tg\<rparr>))
      | Some e \<Rightarrow> (False, c))"

definition cache_delete :: "'f cache \<Rightarrow> string \<Rightarrow> bool \<times> 'f cache" where
  "cache_delete c k = (c k \<noteq> None, c(k := None))"

definition cache_pop :: "'f cache \<Rightarrow> string \<Rightarrow> 'f pyval \<Rightarrow> 'f pyval \<times> 'f cache" where
  "cache_pop c k dflt = (cache_get c k dflt, c(k := None))"

text \<open>
  Modelled from the spec: \<^verbatim>\<open>with cache.transact():\<close> runs its body in isolation; the
  writes of the body become visible together when the scope is left, and none of them
  does when the body raises.
\<close>

definition transact ::
  "('f cache \<Rightarrow> error + ('a \<times> 'f cache)) \<Rightarrow> 'f cache \<Rightarrow> (error + 'a) \<times> 'f cache" where
  "transact body c =
     (case body c of Inl e \<Rightarrow> (Inl e, c) | Inr (r, c') \<Rightarrow> (Inr r, c'))"

text \<open>
  Modelled from the spec: an entry written with an \<^verbatim>\<open>expire\<close> argument may live only
  that long unrefreshed and is then gone; an entry written without one never expires on
  its own. The passing of time is not modelled: expiry is an event of the store that can
  happen to an entry with a time to live, and never to one without.
\<close>

definition cache_expire :: "'f cache \<Rightarrow> string \<Rightarrow> 'f cache" where
  "cache_expire c k =
     (case c k of
        None \<Rightarrow> c
      | Some e \<Rightarrow> (case e_expire e of None \<Rightarrow> c | Some t \<Rightarrow> c(k := None)))"

section \<open>Averager\<close>

text \<open>
  The fields \<^verbatim>\<open>_key\<close>, \<^verbatim>\<open>_expire\<close> and \<^verbatim>\<open>_tag\<close> that \<^verbatim>\<open>Averager\<close>, \<^verbatim>\<open>Lock\<close>,
  \<^verbatim>\<open>RLock\<close> and \<^verbatim>\<open>BoundedSemaphore\<close> share. The field \<^verbatim>\<open>_cache\<close> is a reference to the
  shared store, which the model passes to every operation explicitly.
\<close>

record recipe =
  self_key :: string
  self_expire :: "real option"
  self_tag :: "string option"

text \<open>A constructor receives the cache and returns it with the new object.\<close>

definition Averager_init ::
  "'f cache \<Rightarrow> string \<Rightarrow> real option \<Rightarrow> string option \<Rightarrow> recipe \<times> 'f cache" where
  "Averager_init c k ex tg = (\<lparr>self_key = k, self_expire = ex, self_tag = tg\<rparr>, c)"

text \<open>The default \<^verbatim>\<open>(0.0, 0)\<close> of the three reads.\<close>

definition Averager_default :: "'f float_ops \<Rightarrow> 'f pyval" where
  "Averager_default ops = PTuple [PFloat (fl_of_int ops 0), PInt 0]"

definition Averager_add ::
  "'f float_ops \<Rightarrow> recipe \<Rightarrow> 'f pyval \<Rightarrow> 'f cache \<Rightarrow> (error + unit) \<times> 'f cache" where
  "Averager_add ops self v =
     transact (\<lambda>c.
       err_bind (unpack2 (cache_get c (self_key self) (Averager_default ops)))
         (\<lambda>(tot, count).
       err_bind (py_add ops tot v) (\<lambda>tot'.
       err_bind (py_add ops count (PInt 1)) (\<lambda>count'.
       Inr ((), cache_set c (self_key self) (PTuple [tot', count'])
                  (self_expire self) (self_tag self))))))"

text \<open>The last line that \<^verbatim>\<open>get\<close> and \<^verbatim>\<open>pop\<close> share.\<close>

definition average :: "'f float_ops \<Rightarrow> 'f pyval \<Rightarrow> error + 'f pyval" where
  "average ops v =
     err_bind (unpack2 v) (\<lambda>(tot, count).
       if py_eq_int ops count 0 then Inr (PFloat (fl_of_int ops 0))
       else py_truediv ops tot count)"

definition Averager_get :: "'f float_ops \<Rightarrow> recipe \<Rightarrow> 'f cache \<Rightarrow> error + 'f pyval" where
  "Averager_get ops self c =
     average ops (cache_get c (self_key self) (Averager_default ops))"

definition Averager_pop ::
  "'f float_ops \<Rightarrow> recipe \<Rightarrow> 'f cache \<Rightarrow> (error + 'f pyval) \<times> 'f cache" where
  "Averager_pop ops self c =
     (case cache_pop c (self_key self) (Averager_default ops) of
        (v, c') \<Rightarrow> (average ops v, c'))"

text \<open>A sequence of \<^verbatim>\<open>add\<close> calls, one after the other, stopping at the first that raises.\<close>

fun Averager_adds ::
  "'f float_ops \<Rightarrow> recipe \<Rightarrow> 'f pyval list \<Rightarrow> 'f cache \<Rightarrow> (error + unit) \<times> 'f cache" where
  "Averager_adds ops self [] c = (Inr (), c)"
| "Averager_adds ops self (v # vs) c =
     (case Averager_add ops self v c of
        (Inl e, c') \<Rightarrow> (Inl e, c')
      | (Inr u, c') \<Rightarrow> Averager_adds ops self vs c')"

text \<open>
  The numbers that can take part in float arithmetic, an integer being one when it is
  within the range of the doubles, and the float that takes part for such a number.
\<close>

fun is_num :: "'f pyval \<Rightarrow> bool" where
  "is_num (PInt a) = (\<bar>a\<bar> < float_int_limit)"
| "is_num (PFloat x) = True"
| "is_num v = False"

fun num_of :: "'f float_ops \<Rightarrow> 'f pyval \<Rightarrow> 'f" where
  "num_of ops (PInt a) = fl_of_int ops a"
| "num_of ops (PFloat x) = x"
| "num_of ops v = fl_of_int ops 0"

section \<open>Lock\<close>

definition Lock_init ::
  "'f cache \<Rightarrow> string \<Rightarrow> real option \<Rightarrow> string option \<Rightarrow> recipe \<times> 'f cache" where
  "Lock_init c k ex tg = (\<lparr>self_key = k, self_expire = ex, self_tag = tg\<rparr>, c)"

text \<open>
  One iteration of the loop of \<^verbatim>\<open>Lock.acquire\<close>, up to the test of \<^verbatim>\<open>added\<close>: the
  call of \<^verbatim>\<open>add\<close>.
\<close>

definition Lock_acquire_attempt :: "recipe \<Rightarrow> 'f cache \<Rightarrow> bool \<times> 'f cache" where
  "Lock_acquire_attempt self c =
     cache_add c (self_key self) PNone (self_expire self) (self_tag self)"

text \<open>
  The loop itself, run by one caller alone: \<^verbatim>\<open>time.sleep\<close> leaves the cache as it is,
  so a caller that finds the key present and has no one to delete it spins for ever
  (the value \<open>None\<close>).
\<close>

partial_function (option) Lock_acquire :: "recipe \<Rightarrow> 'f cache \<Rightarrow> 'f cache option" where
  "Lock_acquire self c =
     (case Lock_acquire_attempt self c of
        (added, c') \<Rightarrow> if added then Some c' else Lock_acquire self c')"

definition Lock_release :: "recipe \<Rightarrow> 'f cache \<Rightarrow> 'f cache" where
  "Lock_release self c = snd (cache_delete c (self_key self))"

text \<open>
  Callers of one \<^verbatim>\<open>Lock\<close>, interleaved. Each call of the store is atomic, so a run of
  the system is a sequence of events: caller \<open>p\<close>, not holding the lock, runs one
  iteration of the loop of \<^verbatim>\<open>acquire\<close> and holds the lock when \<^verbatim>\<open>add\<close> succeeded;
  caller \<open>p\<close>, holding the lock, calls the matching \<^verbatim>\<open>release\<close>; the store expires the
  entry. An event that is not enabled leaves the system as it is.
\<close>

datatype lock_event = Attempt nat | Release nat | Expire

record 'f lock_sys =
  sys_cache :: "'f cache"
  holding :: "nat \<Rightarrow> bool"

definition lock_step :: "recipe \<Rightarrow> 'f lock_sys \<Rightarrow> lock_event \<Rightarrow> 'f lock_sys" where
  "lock_step self s ev =
     (case ev of
        Attempt p \<Rightarrow>
          if holding s p then s
          else (case Lock_acquire_attempt self (sys_cache s) of
                  (added, c') \<Rightarrow> \<lparr>sys_cache = c', holding = (holding s)(p := added)\<rparr>)
      | Release p \<Rightarrow>
          if holding s p
          then \<lparr>sys_cache = Lock_release self (sys_cache s), holding = (holding s)(p := False)\<rparr>
          else s
      | Expire \<Rightarrow> s\<lparr>sys_cache := cache_expire (sys_cache s) (self_key self)\<rparr>)"

definition lock_run :: "recipe \<Rightarrow> 'f lock_sys \<Rightarrow> lock_event list \<Rightarrow> 'f lock_sys" where
  "lock_run self s evs = foldl (lock_step self) s evs"

text \<open>The system before any caller has acquired the lock.\<close>

definition lock_init_sys :: "'f cache \<Rightarrow> 'f lock_sys" where
  "lock_init_sys c = \<lparr>sys_cache = c, holding = (\<lambda>p. False)\<rparr>"

definition mutual_exclusion :: "'f lock_sys \<Rightarrow> bool" where
  "mutual_exclusion s = (\<forall>p q. holding s p \<and> holding s q \<longrightarrow> p = q)"

text \<open>The callers that occur in a run.\<close>

fun caller_of :: "lock_event \<Rightarrow> nat list" where
  "caller_of (Attempt p) = [p]"
| "caller_of (Release p) = [p]"
| "caller_of Expire = []"

definition callers :: "lock_event list \<Rightarrow> nat list" where
  "callers evs = concat (map caller_of evs)"

text \<open>
  An expiry while the lock is held: at some \<open>Expire\<close> event of the run the store removes
  the entry (it has a time to live) although one of the callers \<open>ps\<close> holds the lock.
\<close>

definition expiry_removes :: "'f cache \<Rightarrow> string \<Rightarrow> bool" where
  "expiry_removes c k =
     (case c k of None \<Rightarrow> False | Some e \<Rightarrow> e_expire e \<noteq> None)"

fun held_expiry :: "recipe \<Rightarrow> nat list \<Rightarrow> 'f lock_sys \<Rightarrow> lock_event list \<Rightarrow> bool" where
  "held_expiry self ps s [] = False"
| "held_expiry self ps s (ev # evs) =
     ((ev = Expire \<and> expiry_removes (sys_cache s) (self_key self) \<and>
       list_ex (holding s) ps) \<or>
      held_expiry self ps (lock_step self s ev) evs)"

text \<open>
  The invariant behind mutual exclusion: only callers of \<open>ps\<close> hold the lock, and while
  someone holds it the key is present, in an entry without a time to live when the lock
  was constructed without \<^verbatim>\<open>expire\<close>.
\<close>

definition lock_inv :: "recipe \<Rightarrow> nat list \<Rightarrow> 'f lock_sys \<Rightarrow> bool" where
  "lock_inv self ps s =
     (mutual_exclusion s \<and>
      (\<forall>p. holding s p \<longrightarrow> p \<in> set ps) \<and>
      ((\<exists>p. holding s p) \<longrightarrow>
         (\<exists>e. sys_cache s (self_key self) = Some e \<and>
              (self_expire self = None \<longrightarrow> e_expire e = None))))"

section \<open>RLock\<close>

record rlock = recipe +
  rlock_value :: string

text \<open>
  The thread that runs a piece of code is what \<^verbatim>\<open>os.getpid()\<close> and
  \<^verbatim>\<open>threading.get_ident()\<close> read. Each operation of \<^verbatim>\<open>RLock\<close> takes the identity of
  the thread that calls it as an argument; only the constructor consults it.
\<close>

record thread =
  pid :: int
  tid :: int

definition RLock_init ::
  "thread \<Rightarrow> 'f cache \<Rightarrow> string \<Rightarrow> real option \<Rightarrow> string option \<Rightarrow> rlock \<times> 'f cache" where
  "RLock_init caller c k ex tg =
     (\<lparr>self_key = k, self_expire = ex, self_tag = tg,
       rlock_value = str_int (pid caller) @ ''-'' @ str_int (tid caller)\<rparr>, c)"

text \<open>
  One iteration of the loop of \<^verbatim>\<open>RLock.acquire\<close>: the transaction. The result says
  whether the iteration returned from \<^verbatim>\<open>acquire\<close>.
\<close>

definition RLock_acquire_attempt ::
  "'f float_ops \<Rightarrow> thread \<Rightarrow> rlock \<Rightarrow> 'f cache \<Rightarrow> (error + bool) \<times> 'f cache" where
  "RLock_acquire_attempt ops caller self =
     transact (\<lambda>c.
       err_bind (unpack2 (cache_get c (self_key self) (PTuple [PNone, PInt 0])))
         (\<lambda>(val, count).
       if py_str_eq (rlock_value self) val \<or> py_eq_int ops count 0
       then err_bind (py_add ops count (PInt 1)) (\<lambda>count'.
              Inr (True, cache_set c (self_key self) (PTuple [PStr (rlock_value self), count'])
                           (self_expire self) (self_tag self)))
       else Inr (False, c)))"

partial_function (option) RLock_acquire ::
  "'f float_ops \<Rightarrow> thread \<Rightarrow> rlock \<Rightarrow> 'f cache \<Rightarrow> ((error + unit) \<times> 'f cache) option" where
  "RLock_acquire ops caller self c =
     (case RLock_acquire_attempt ops caller self c of
        (Inl e, c') \<Rightarrow> Some (Inl e, c')
      | (Inr returned, c') \<Rightarrow>
          if returned then Some (Inr (), c') else RLock_acquire ops caller self c')"

definition RLock_release ::
  "'f float_ops \<Rightarrow> thread \<Rightarrow> rlock \<Rightarrow> 'f cache \<Rightarrow> (error + unit) \<times> 'f cache" where
  "RLock_release ops caller self =
     transact (\<lambda>c.
       err_bind (unpack2 (cache_get c (self_key self) (PTuple [PNone, PInt 0])))
         (\<lambda>(val, count).
       err_bind (if py_str_eq (rlock_value self) val then py_gt_int ops count 0 else Inr False)
         (\<lambda>is_owned.
       if \<not> is_owned then Inl (AssertionError ''cannot release un-acquired lock'')
       else err_bind (py_sub ops count (PInt 1)) (\<lambda>count'.
              Inr ((), cache_set c (self_key self) (PTuple [val, count'])
                         (self_expire self) (self_tag self))))))"

section \<open>BoundedSemaphore\<close>

record semaphore = recipe +
  sem_value :: int

definition BoundedSemaphore_init ::
  "'f cache \<Rightarrow> string \<Rightarrow> int \<Rightarrow> real option \<Rightarrow> string option \<Rightarrow> semaphore \<times> 'f cache" where
  "BoundedSemaphore_init c k v ex tg =
     (\<lparr>self_key = k, self_expire = ex, self_tag = tg, sem_value = v\<rparr>, c)"

definition BoundedSemaphore_acquire_attempt ::
  "'f float_ops \<Rightarrow> semaphore \<Rightarrow> 'f cache \<Rightarrow> (error + bool) \<times> 'f cache" where
  "BoundedSemaphore_acquire_attempt ops self =
     transact (\<lambda>c.
       let val = cache_get c (self_key self) (PInt (sem_value self)) in
       err_bind (py_gt_int ops val 0) (\<lambda>positive.
       if positive
       then err_bind (py_sub ops val (PInt 1)) (\<lambda>val'.
              Inr (True, cache_set c (self_key self) val' (self_expire self) (self_tag self)))
       else Inr (False, c)))"

partial_function (option) BoundedSemaphore_acquire ::
  "'f float_ops \<Rightarrow> semaphore \<Rightarrow> 'f cache \<Rightarrow> ((error + unit) \<times> 'f cache) option" where
  "BoundedSemaphore_acquire ops self c =
     (case BoundedSemaphore_acquire_attempt ops self c of
        (Inl e, c') \<Rightarrow> Some (Inl e, c')
      | (Inr returned, c') \<Rightarrow>
          if returned then Some (Inr (), c') else BoundedSemaphore_acquire ops self c')"

definition BoundedSemaphore_release ::
  "'f float_ops \<Rightarrow> semaphore \<Rightarrow> 'f cache \<Rightarrow> (error + unit) \<times> 'f cache" where
  "BoundedSemaphore_release ops self =
     transact (\<lambda>c.
       let val = cache_get c (self_key self) (PInt (sem_value self)) in
       err_bind (py_int_gt ops (sem_value self) val) (\<lambda>acquired.
       if \<not> acquired then Inl (AssertionError ''cannot release un-acquired semaphore'')
       else err_bind (py_add ops val (PInt 1)) (\<lambda>val'.
              Inr ((), cache_set c (self_key self) val' (self_expire self) (self_tag self)))))"

text \<open>
  Callers of one semaphore, interleaved: every transaction is atomic, so a run is a
  sequence of transactions, each an iteration of the loop of \<^verbatim>\<open>acquire\<close> or a
  \<^verbatim>\<open>release\<close>, by whichever caller. A transaction that raises leaves the cache as it was.
\<close>

datatype sem_event = SemAcquire | SemRelease | SemExpire

definition sem_step :: "'f float_ops \<Rightarrow> semaphore \<Rightarrow> 'f cache \<Rightarrow> sem_event \<Rightarrow> 'f cache" where
  "sem_step ops self c ev =
     (case ev of
        SemAcquire \<Rightarrow> snd (BoundedSemaphore_acquire_attempt ops self c)
      | SemRelease \<Rightarrow> snd (BoundedSemaphore_release ops self c)
      | SemExpire \<Rightarrow> cache_expire c (self_key self))"

definition sem_run ::
  "'f float_ops \<Rightarrow> semaphore \<Rightarrow> 'f cache \<Rightarrow> sem_event list \<Rightarrow> 'f cache" where
  "sem_run ops self c evs = foldl (sem_step ops self) c evs"

text \<open>What is stored at the key of the semaphore lies within the bound.\<close>

definition sem_bounded :: "semaphore \<Rightarrow> 'f cache \<Rightarrow> bool" where
  "sem_bounded self c =
     (case c (self_key self) of
        None \<Rightarrow> True
      | Some e \<Rightarrow>
         (case e_value e of
            PInt available \<Rightarrow> 0 \<le> available \<and> available \<le> sem_value self
          | _ \<Rightarrow> False))"

section \<open>throttle\<close>

text \<open>
  The arguments of \<^verbatim>\<open>throttle\<close>, but for the cache. The time function reads the
  environment \<open>'w\<close> in which the program runs and the sleep function changes it; the
  defaults \<^verbatim>\<open>time.time\<close> and \<^verbatim>\<open>time.sleep\<close> are modelled on a clock further down.
\<close>

record ('f, 'w) throttle_args =
  t_count :: "'f pyval"
  t_seconds :: "'f pyval"
  t_name :: "string option"
  t_expire :: "real option"
  t_tag :: "string option"
  time_func :: "'w \<Rightarrow> 'f pyval"
  sleep_func :: "'f pyval \<Rightarrow> 'w \<Rightarrow> error + 'w"

text \<open>The attributes of the decorated function that name it.\<close>

record func_name =
  f_module :: string
  f_qualname :: "string option"
  f_name :: string

definition throttle_key :: "('f, 'w) throttle_args \<Rightarrow> func_name \<Rightarrow> string" where
  "throttle_key args func =
     (case t_name args of
        None \<Rightarrow>
          f_module func @ ''.'' @
            (case f_qualname func of Some q \<Rightarrow> q | None \<Rightarrow> f_name func)
      | Some n \<Rightarrow> n)"

text \<open>\<^verbatim>\<open>rate = count / float(seconds)\<close>: a float, when nothing is raised.\<close>

definition throttle_rate :: "'f float_ops \<Rightarrow> ('f, 'w) throttle_args \<Rightarrow> error + 'f" where
  "throttle_rate ops args =
     err_bind (py_float ops (t_seconds args)) (\<lambda>s. py_truediv_float ops (t_count args) s)"

text \<open>
  What \<^verbatim>\<open>wrapper\<close> closes over besides the arguments of \<^verbatim>\<open>throttle\<close>: \<^verbatim>\<open>rate\<close> and
  \<^verbatim>\<open>key\<close>.
\<close>

record 'f closure =
  cl_rate :: 'f
  cl_key :: string

definition throttle_decorator ::
  "'f float_ops \<Rightarrow> ('f, 'w) throttle_args \<Rightarrow> func_name \<Rightarrow> 'w \<Rightarrow> 'f cache \<Rightarrow>
   error + ('f closure \<times> 'f cache)" where
  "throttle_decorator ops args func w c =
     err_bind (throttle_rate ops args) (\<lambda>rate.
       let key = throttle_key args func;
           now = time_func args w
       in Inr (\<lparr>cl_rate = rate, cl_key = key\<rparr>,
               cache_set c key (PTuple [now, t_count args]) (t_expire args) (t_tag args)))"

text \<open>
  The body of the transaction in \<^verbatim>\<open>wrapper\<close>; its result is \<^verbatim>\<open>delay\<close>. The product
  \<^verbatim>\<open>(now - last) * rate\<close> is a float because \<^verbatim>\<open>rate\<close> is one, and so is the new tally;
  \<^verbatim>\<open>tally >= 1\<close>, \<^verbatim>\<open>tally - 1\<close> and \<^verbatim>\<open>1 - tally\<close> therefore raise nothing, and the
  division by \<^verbatim>\<open>rate\<close> raises when \<^verbatim>\<open>rate\<close> is zero. The two calls of \<^verbatim>\<open>cache.set\<close> pass
  \<^verbatim>\<open>expire\<close> and no tag.
\<close>

definition wrapper_body ::
  "'f float_ops \<Rightarrow> ('f, 'w) throttle_args \<Rightarrow> 'f closure \<Rightarrow> 'w \<Rightarrow> 'f cache \<Rightarrow>
   error + ('f pyval \<times> 'f cache)" where
  "wrapper_body ops args cl w c =
     err_bind (unpack2 (cache_get c (cl_key cl) PNone)) (\<lambda>(last, tally).
     let now = time_func args w in
     err_bind (py_sub ops now last) (\<lambda>elapsed.
     err_bind (py_mul_float ops elapsed (cl_rate cl)) (\<lambda>accrued.
     err_bind (py_add_float ops tally accrued) (\<lambda>tally'.
     err_bind (py_float_gt ops tally' (t_count args)) (\<lambda>over.
     if over
     then err_bind (py_sub ops (t_count args) (PInt 1)) (\<lambda>left.
            Inr (PInt 0, cache_set c (cl_key cl) (PTuple [now, left]) (t_expire args) None))
     else if fl_cmp_int ops tally' 1 = CmpGT \<or> fl_cmp_int ops tally' 1 = CmpEQ
     then Inr (PInt 0,
               cache_set c (cl_key cl)
                 (PTuple [now, PFloat (fl_sub ops tally' (fl_of_int ops 1))])
                 (t_expire args) None)
     else err_bind (float_div ops (fl_sub ops (fl_of_int ops 1) tally') (cl_rate cl))
            (\<lambda>delay. Inr (PFloat delay, c)))))))"

text \<open>
  The loop of \<^verbatim>\<open>wrapper\<close>, for one caller alone, so that the cache is the same after
  the sleep as before it. A loop that never ends is the value \<open>None\<close>.
\<close>

partial_function (option) wrapper_loop ::
  "'f float_ops \<Rightarrow> ('f, 'w) throttle_args \<Rightarrow> 'f closure \<Rightarrow> 'w \<Rightarrow> 'f cache \<Rightarrow>
   ((error + unit) \<times> 'w \<times> 'f cache) option" where
  "wrapper_loop ops args cl w c =
     (case transact (wrapper_body ops args cl w) c of
        (Inl e, c') \<Rightarrow> Some (Inl e, w, c')
      | (Inr delay, c') \<Rightarrow>
          if py_truthy ops delay
          then (case sleep_func args delay w of
                  Inl e \<Rightarrow> Some (Inl e, w, c')
                | Inr w' \<Rightarrow> wrapper_loop ops args cl w' c')
          else Some (Inr (), w, c'))"

text \<open>
  \<^verbatim>\<open>wrapper\<close>: the loop, then \<^verbatim>\<open>return func(*args, **kwargs)\<close>. The decorated function
  may itself use the environment and the cache.
\<close>

definition throttle_wrapper ::
  "'f float_ops \<Rightarrow> ('f, 'w) throttle_args \<Rightarrow> 'f closure \<Rightarrow>
   ('a \<Rightarrow> 'w \<Rightarrow> 'f cache \<Rightarrow> (error + 'r) \<times> 'w \<times> 'f cache) \<Rightarrow>
   'a \<Rightarrow> 'w \<Rightarrow> 'f cache \<Rightarrow> ((error + 'r) \<times> 'w \<times> 'f cache) option" where
  "throttle_wrapper ops args cl func a w c =
     (case wrapper_loop ops args cl w c of
        None \<Rightarrow> None
      | Some (Inl e, w', c') \<Rightarrow> Some (Inl e, w', c')
      | Some (Inr u, w', c') \<Rightarrow> Some (func a w' c'))"

text \<open>
  The defaults \<^verbatim>\<open>time.time\<close> and \<^verbatim>\<open>time.sleep\<close> for the examples: the environment is a
  clock, the time is read off it, and sleeping moves it on by the delay. \<^verbatim>\<open>time.sleep\<close>
  raises \<^verbatim>\<open>ValueError\<close> for a negative delay and \<^verbatim>\<open>TypeError\<close> for an argument that is
  not a number.
\<close>

definition time_time :: "real \<Rightarrow> real pyval" where
  "time_time clock = PFloat clock"

fun time_sleep :: "real pyval \<Rightarrow> real \<Rightarrow> error + real" where
  "time_sleep (PInt n) clock =
     (if n < 0 then Inl ValueError else Inr (clock + real_of_int n))"
| "time_sleep (PFloat d) clock = (if d < 0 then Inl ValueError else Inr (clock + d))"
| "time_sleep v clock = Inl TypeError"

section \<open>barrier\<close>

text \<open>
  Modelled from the spec: \<^verbatim>\<open>full_name\<close> is imported from a module that is not among the
  sources; it gives the fully-qualified name of the function.
\<close>

definition full_name :: "func_name \<Rightarrow> string" where
  "full_name func =
     f_module func @ ''.'' @ (case f_qualname func of Some q \<Rightarrow> q | None \<Rightarrow> f_name func)"

text \<open>
  \<^verbatim>\<open>decorator\<close> of \<^verbatim>\<open>barrier\<close>: it derives the key and calls the lock factory, a
  constructor such as \<^verbatim>\<open>Lock\<close>. Its result is the lock that \<^verbatim>\<open>wrapper\<close> closes over.
\<close>

definition barrier_decorator ::
  "('f cache \<Rightarrow> string \<Rightarrow> real option \<Rightarrow> string option \<Rightarrow> 'l \<times> 'f cache) \<Rightarrow>
   string option \<Rightarrow> real option \<Rightarrow> string option \<Rightarrow> func_name \<Rightarrow> 'f cache \<Rightarrow> 'l \<times> 'f cache" where
  "barrier_decorator lock_factory name ex tg func c =
     (let key = (case name of None \<Rightarrow> full_name func | Some n \<Rightarrow> n)
      in lock_factory c key ex tg)"

section \<open>Facts about the values and the cache\<close>

lemma float_int_limit_large: "2 ^ 64 < float_int_limit"
  by (simp add: float_int_limit_def)

lemma int_to_float_small:
  "\<bar>n\<bar> < 2 ^ 64 \<Longrightarrow> int_to_float ops n = Inr (fl_of_int ops n)"
  using float_int_limit_large by (simp add: int_to_float_def)

lemma int_to_float_num:
  "\<bar>n\<bar> < float_int_limit \<Longrightarrow> int_to_float ops n = Inr (fl_of_int ops n)"
  by (simp add: int_to_float_def)

lemma cache_get_set_same: "cache_get (cache_set c k v ex tg) k d = v"
  by (simp add: cache_get_def cache_set_def)

lemma cache_get_absent: "c k = None \<Longrightarrow> cache_get c k d = d"
  by (simp add: cache_get_def)

lemma cache_get_present: "c k = Some e \<Longrightarrow> cache_get c k d = e_value e"
  by (simp add: cache_get_def)

section \<open>Averager: the running mean\<close>

lemma py_add_float_num:
  "is_num v \<Longrightarrow> py_add ops (PFloat t) v = Inr (PFloat (fl_add ops t (num_of ops v)))"
  by (cases v) (simp_all add: int_to_float_num)

lemma Averager_add_state:
  assumes "cache_get c (self_key self) (Averager_default ops) = PTuple [PFloat t, PInt n]"
    and "is_num v"
  shows "Averager_add ops self v c =
           (Inr (), cache_set c (self_key self)
                      (PTuple [PFloat (fl_add ops t (num_of ops v)), PInt (n + 1)])
                      (self_expire self) (self_tag self))"
  using assms by (simp add: Averager_add_def transact_def py_add_float_num)

lemma Averager_adds_state:
  assumes "cache_get c (self_key self) (Averager_default ops) = PTuple [PFloat t, PInt n]"
    and "\<forall>v \<in> set vs. is_num v"
  shows "fst (Averager_adds ops self vs c) = Inr () \<and>
         cache_get (snd (Averager_adds ops self vs c)) (self_key self) (Averager_default ops) =
           PTuple [PFloat (foldl (fl_add ops) t (map (num_of ops) vs)), PInt (n + int (length vs))]"
  using assms
proof (induction vs arbitrary: c t n)
  case Nil
  then show ?case by simp
next
  case (Cons v vs)
  have v: "is_num v" and vs: "\<forall>v \<in> set vs. is_num v" using Cons.prems(2) by simp_all
  let ?c = "cache_set c (self_key self)
              (PTuple [PFloat (fl_add ops t (num_of ops v)), PInt (n + 1)])
              (self_expire self) (self_tag self)"
  have step: "Averager_add ops self v c = (Inr (), ?c)"
    using Averager_add_state [OF Cons.prems(1) v] .
  have get: "cache_get ?c (self_key self) (Averager_default ops) =
               PTuple [PFloat (fl_add ops t (num_of ops v)), PInt (n + 1)]"
    by (rule cache_get_set_same)
  show ?case
    using Cons.IH [OF get vs] by (simp add: step add.assoc)
qed

lemma average_state:
  "average ops (PTuple [PFloat t, PInt n]) =
     (if n = 0 then Inr (PFloat (fl_of_int ops 0)) else py_truediv ops (PFloat t) (PInt n))"
  by (simp add: average_def)


lemma Averager_adds_fresh:
  assumes "c (self_key self) = None" and "\<forall>v \<in> set vs. is_num v"
  shows "fst (Averager_adds ops self vs c) = Inr () \<and>
         cache_get (snd (Averager_adds ops self vs c)) (self_key self) (Averager_default ops) =
           PTuple [PFloat (foldl (fl_add ops) (fl_of_int ops 0) (map (num_of ops) vs)),
                   PInt (int (length vs))]"
proof -
  have init: "cache_get c (self_key self) (Averager_default ops) =
                PTuple [PFloat (fl_of_int ops 0), PInt 0]"
    using assms(1) by (simp add: cache_get_absent Averager_default_def)
  from Averager_adds_state [OF init assms(2)] show ?thesis by simp
qed



text \<open>
  C8. In any state reached from an absent key by a sequence of \<^verbatim>\<open>add\<close> calls, \<^verbatim>\<open>pop\<close>
  returns what \<^verbatim>\<open>get\<close> returns in that state, the running mean (\<open>0.0\<close> when nothing was
  added); after it the key is absent and \<^verbatim>\<open>get\<close> returns \<open>0.0\<close>.
\<close>

theorem Averager_pop_round_trip:
  assumes "c (self_key self) = None" and "\<forall>v \<in> set vs. is_num v"
  shows "fst (Averager_pop ops self (snd (Averager_adds ops self vs c))) =
           Averager_get ops self (snd (Averager_adds ops self vs c)) \<and>
         fst (Averager_pop ops self (snd (Averager_adds ops self vs c))) =
           (if length vs = 0 then Inr (PFloat (fl_of_int ops 0))
            else py_truediv ops
                   (PFloat (foldl (fl_add ops) (fl_of_int ops 0) (map (num_of ops) vs)))
                   (PInt (int (length vs)))) \<and>
         snd (Averager_pop ops self (snd (Averager_adds ops self vs c))) (self_key self) = None \<and>
         Averager_get ops self (snd (Averager_pop ops self (snd (Averager_adds ops self vs c)))) =
           Inr (PFloat (fl_of_int ops 0))"
proof -
  define c' where "c' = snd (Averager_adds ops self vs c)"
  have pop_get: "fst (Averager_pop ops self c') = Averager_get ops self c'"
    by (simp add: Averager_pop_def Averager_get_def cache_pop_def)
  have mean: "Averager_get ops self c' =
           (if length vs = 0 then Inr (PFloat (fl_of_int ops 0))
            else py_truediv ops
                   (PFloat (foldl (fl_add ops) (fl_of_int ops 0) (map (num_of ops) vs)))
                   (PInt (int (length vs))))"
    using Averager_adds_fresh [of c self vs ops] assms
    by (simp add: c'_def Averager_get_def average_state)
  have gone: "snd (Averager_pop ops self c') (self_key self) = None"
    by (simp add: Averager_pop_def cache_pop_def)
  have reset: "Averager_get ops self (snd (Averager_pop ops self c')) =
      Inr (PFloat (fl_of_int ops 0))"
    using gone by (simp add: Averager_get_def cache_get_absent average_def Averager_default_def)
  from pop_get mean gone reset show ?thesis by (simp add: c'_def)
qed

theorem Averager_pop_round_trip_witness:
  "fst (Averager_pop exact_ops \<lparr>self_key = ''latency'', self_expire = None, self_tag = None\<rparr>
     (snd (Averager_adds exact_ops
             \<lparr>self_key = ''latency'', self_expire = None, self_tag = None\<rparr>
             [PFloat 0.080, PFloat 0.120, PFloat 0.160] Map.empty))) = Inr (PFloat 0.12) \<and>
   Averager_get exact_ops \<lparr>self_key = ''latency'', self_expire = None, self_tag = None\<rparr>
     (snd (Averager_pop exact_ops
        \<lparr>self_key = ''latency'', self_expire = None, self_tag = None\<rparr>
        (snd (Averager_adds exact_ops
                \<lparr>self_key = ''latency'', self_expire = None, self_tag = None\<rparr>
                [PFloat 0.080, PFloat 0.120, PFloat 0.160] Map.empty)))) = Inr (PFloat 0)"
  using Averager_pop_round_trip [of Map.empty
          "\<lparr>self_key = ''latency'', self_expire = None, self_tag = None\<rparr>"
          "[PFloat 0.080, PFloat 0.120, PFloat 0.160]" exact_ops, THEN conjunct2]
        float_int_limit_large
  by (simp add: exact_ops_def real_cmp_def int_to_float_def float_div_def)

section \<open>Lock: mutual exclusion\<close>

lemma lock_inv_init: "lock_inv self ps (lock_init_sys c)"
  by (simp add: lock_inv_def lock_init_sys_def mutual_exclusion_def)

lemma lock_inv_attempt:
  assumes "lock_inv self ps s" and "p \<in> set ps"
  shows "lock_inv self ps (lock_step self s (Attempt p))"
proof (cases "holding s p")
  case True
  then show ?thesis using assms(1) by (simp add: lock_step_def)
next
  case False
  show ?thesis
  proof (cases "sys_cache s (self_key self)")
    case None
    then have nobody: "\<And>q. \<not> holding s q"
      using assms(1) by (auto simp: lock_inv_def)
    show ?thesis
      using None nobody assms(2)
      by (simp add: lock_step_def Lock_acquire_attempt_def cache_add_def lock_inv_def
          mutual_exclusion_def)
  next
    case (Some e)
    then show ?thesis
      using False assms(1)
      by (auto simp: lock_step_def Lock_acquire_attempt_def cache_add_def lock_inv_def
          mutual_exclusion_def)
  qed
qed

lemma lock_inv_release:
  assumes "lock_inv self ps s"
  shows "lock_inv self ps (lock_step self s (Release p))"
proof (cases "holding s p")
  case False
  then show ?thesis using assms by (simp add: lock_step_def)
next
  case True
  then have "\<forall>q. holding s q \<longrightarrow> q = p"
    using assms by (auto simp: lock_inv_def mutual_exclusion_def)
  then have nobody: "\<forall>q. \<not> ((holding s)(p := False)) q"
    by auto
  show ?thesis
    using True nobody
    by (simp add: lock_step_def lock_inv_def mutual_exclusion_def del: fun_upd_apply)
qed

lemma lock_inv_expire:
  assumes "lock_inv self ps s"
    and "self_expire self = None \<or>
         \<not> (expiry_removes (sys_cache s) (self_key self) \<and> list_ex (holding s) ps)"
  shows "lock_inv self ps (lock_step self s Expire)"
proof (cases "\<exists>p. holding s p")
  case False
  then show ?thesis
    using assms(1) by (simp add: lock_step_def lock_inv_def mutual_exclusion_def)
next
  case True
  then obtain p where p: "holding s p" by blast
  then have held: "list_ex (holding s) ps"
    using assms(1) by (auto simp: lock_inv_def list_ex_iff)
  obtain e where e: "sys_cache s (self_key self) = Some e"
      and ttl: "self_expire self = None \<longrightarrow> e_expire e = None"
    using assms(1) True by (auto simp: lock_inv_def)
  have "e_expire e = None"
    using assms(2) held ttl e by (auto simp: expiry_removes_def)
  then have same: "cache_expire (sys_cache s) (self_key self) = sys_cache s"
    using e by (simp add: cache_expire_def)
  show ?thesis
    using assms(1) by (simp add: lock_step_def same lock_inv_def mutual_exclusion_def)
qed

lemma lock_inv_run:
  assumes "set (callers evs) \<subseteq> set ps" and "lock_inv self ps s"
    and "self_expire self = None \<or> \<not> held_expiry self ps s evs"
  shows "lock_inv self ps (lock_run self s evs)"
  using assms unfolding lock_run_def
proof (induction evs arbitrary: s)
  case Nil
  then show ?case by simp
next
  case (Cons ev evs)
  have rest: "set (callers evs) \<subseteq> set ps"
    using Cons.prems(1) by (simp add: callers_def)
  have step: "lock_inv self ps (lock_step self s ev)"
  proof (cases ev)
    case (Attempt p)
    then have "p \<in> set ps" using Cons.prems(1) by (simp add: callers_def)
    then show ?thesis using Attempt Cons.prems(2) lock_inv_attempt by simp
  next
    case (Release p)
    then show ?thesis using Cons.prems(2) lock_inv_release by simp
  next
    case Expire
    then show ?thesis using Cons.prems(2,3) lock_inv_expire [of self ps s] by auto
  qed
  have quiet: "self_expire self = None \<or> \<not> held_expiry self ps (lock_step self s ev) evs"
    using Cons.prems(3) by auto
  show ?case
    using Cons.IH [OF rest step quiet] by simp
qed

text \<open>
  C1, as amended. Whatever the number of callers and however their iterations of
  \<^verbatim>\<open>acquire\<close> and their matching calls of \<^verbatim>\<open>release\<close> interleave, at most one caller
  holds the lock at any time, in every run in which the store does not expire the entry
  while a caller holds the lock; that is so in every run of a \<^verbatim>\<open>Lock\<close> constructed
  without \<^verbatim>\<open>expire\<close>.
\<close>

theorem Lock_mutual_exclusion:
  assumes "self_expire self = None \<or>
           \<not> held_expiry self (callers evs) (lock_init_sys c) evs"
  shows "mutual_exclusion (lock_run self (lock_init_sys c) evs)"
proof -
  have "lock_inv self (callers evs) (lock_run self (lock_init_sys c) evs)"
    by (rule lock_inv_run [OF subset_refl lock_inv_init assms])
  then show ?thesis by (simp add: lock_inv_def)
qed

text \<open>
  A lock with a time to live whose entry expires only while nobody holds the lock, and
  the run of the counterexample below for a lock without a time to live.
\<close>

theorem Lock_mutual_exclusion_witness:
  "\<not> held_expiry \<lparr>self_key = ''report-123'', self_expire = Some 1, self_tag = None\<rparr>
       (callers [Attempt 0, Attempt 1, Release 0, Expire, Attempt 1, Attempt 0])
       (lock_init_sys (Map.empty :: real cache))
       [Attempt 0, Attempt 1, Release 0, Expire, Attempt 1, Attempt 0] \<and>
   mutual_exclusion
     (lock_run \<lparr>self_key = ''report-123'', self_expire = Some 1, self_tag = None\<rparr>
        (lock_init_sys (Map.empty :: real cache))
        [Attempt 0, Attempt 1, Release 0, Expire, Attempt 1, Attempt 0]) \<and>
   holding
     (lock_run \<lparr>self_key = ''report-123'', self_expire = Some 1, self_tag = None\<rparr>
        (lock_init_sys (Map.empty :: real cache))
        [Attempt 0, Attempt 1, Release 0, Expire, Attempt 1, Attempt 0]) 1 \<and>
   mutual_exclusion
     (lock_run \<lparr>self_key = ''report-123'', self_expire = None, self_tag = None\<rparr>
        (lock_init_sys (Map.empty :: real cache))
        [Attempt 0, Expire, Attempt 1])"
proof -
  have quiet: "\<not> held_expiry \<lparr>self_key = ''report-123'', self_expire = Some 1, self_tag = None\<rparr>
       (callers [Attempt 0, Attempt 1, Release 0, Expire, Attempt 1, Attempt 0])
       (lock_init_sys (Map.empty :: real cache))
       [Attempt 0, Attempt 1, Release 0, Expire, Attempt 1, Attempt 0]"
    by (simp add: callers_def lock_step_def lock_init_sys_def Lock_acquire_attempt_def
        cache_add_def cache_expire_def Lock_release_def cache_delete_def expiry_removes_def)
  have now: "holding
     (lock_run \<lparr>self_key = ''report-123'', self_expire = Some 1, self_tag = None\<rparr>
        (lock_init_sys (Map.empty :: real cache))
        [Attempt 0, Attempt 1, Release 0, Expire, Attempt 1, Attempt 0]) 1"
    by (simp add: lock_run_def lock_step_def lock_init_sys_def Lock_acquire_attempt_def
        cache_add_def cache_expire_def Lock_release_def cache_delete_def)
  show ?thesis
    using quiet now
      Lock_mutual_exclusion [of "\<lparr>self_key = ''report-123'', self_expire = Some 1, self_tag = None\<rparr>"
        "[Attempt 0, Attempt 1, Release 0, Expire, Attempt 1, Attempt 0]" "Map.empty :: real cache"]
      Lock_mutual_exclusion [of "\<lparr>self_key = ''report-123'', self_expire = None, self_tag = None\<rparr>"
        "[Attempt 0, Expire, Attempt 1]" "Map.empty :: real cache"]
    by simp
qed

text \<open>
  C1, as stated, fails for a lock with a time to live: the first caller acquires, the
  entry expires while it still holds the lock, and the \<^verbatim>\<open>add\<close> of the second caller
  succeeds, so that both are between their \<^verbatim>\<open>acquire\<close> and their \<^verbatim>\<open>release\<close>.
\<close>

theorem Lock_expire_counterexample:
  "\<not> mutual_exclusion
     (lock_run \<lparr>self_key = ''report-123'', self_expire = Some 1, self_tag = None\<rparr>
        (lock_init_sys (Map.empty :: real cache)) [Attempt 0, Expire, Attempt 1])"
proof
  assume "mutual_exclusion
     (lock_run \<lparr>self_key = ''report-123'', self_expire = Some 1, self_tag = None\<rparr>
        (lock_init_sys (Map.empty :: real cache)) [Attempt 0, Expire, Attempt 1])"
  then have "holding (lock_run \<lparr>self_key = ''report-123'', self_expire = Some 1, self_tag = None\<rparr>
        (lock_init_sys (Map.empty :: real cache)) [Attempt 0, Expire, Attempt 1]) 0 \<and>
      holding (lock_run \<lparr>self_key = ''report-123'', self_expire = Some 1, self_tag = None\<rparr>
        (lock_init_sys (Map.empty :: real cache)) [Attempt 0, Expire, Attempt 1]) 1 \<longrightarrow> (0::nat) = 1"
    unfolding mutual_exclusion_def by blast
  then show False
    by (simp add: lock_run_def lock_step_def lock_init_sys_def Lock_acquire_attempt_def
      cache_add_def cache_expire_def)
qed

section \<open>BoundedSemaphore: the bound\<close>

lemma sem_bounded_absent: "c (self_key self) = None \<Longrightarrow> sem_bounded self c"
  by (simp add: sem_bounded_def)

lemma sem_acquire_attempt_absent:
  assumes "c (self_key self) = None"
  shows "BoundedSemaphore_acquire_attempt ops self c =
           (if 0 < sem_value self
            then (Inr True, cache_set c (self_key self) (PInt (sem_value self - 1))
                              (self_expire self) (self_tag self))
            else (Inr False, c))"
  using assms
  by (simp add: BoundedSemaphore_acquire_attempt_def transact_def cache_get_def)

lemma sem_acquire_attempt_present:
  assumes "c (self_key self) = Some e" and "e_value e = PInt a"
  shows "BoundedSemaphore_acquire_attempt ops self c =
           (if 0 < a
            then (Inr True, cache_set c (self_key self) (PInt (a - 1))
                              (self_expire self) (self_tag self))
            else (Inr False, c))"
  using assms
  by (simp add: BoundedSemaphore_acquire_attempt_def transact_def cache_get_def)

lemma sem_release_absent:
  assumes "c (self_key self) = None"
  shows "BoundedSemaphore_release ops self c =
           (Inl (AssertionError ''cannot release un-acquired semaphore''), c)"
  using assms
  by (simp add: BoundedSemaphore_release_def transact_def cache_get_def)

lemma sem_release_present:
  assumes "c (self_key self) = Some e" and "e_value e = PInt a"
  shows "BoundedSemaphore_release ops self c =
           (if a < sem_value self
            then (Inr (), cache_set c (self_key self) (PInt (a + 1))
                            (self_expire self) (self_tag self))
            else (Inl (AssertionError ''cannot release un-acquired semaphore''), c))"
  using assms
  by (simp add: BoundedSemaphore_release_def transact_def cache_get_def)

lemma sem_bounded_set:
  "sem_bounded self (cache_set c (self_key self) (PInt a) ex tg) = (0 \<le> a \<and> a \<le> sem_value self)"
  by (simp add: sem_bounded_def cache_set_def)

lemma sem_bounded_present:
  assumes "sem_bounded self c" and "c (self_key self) = Some e"
  obtains a where "e_value e = PInt a" and "0 \<le> a" and "a \<le> sem_value self"
  using assms by (auto simp: sem_bounded_def split: pyval.splits)

lemma sem_bounded_acquire:
  assumes "sem_bounded self c"
  shows "sem_bounded self (snd (BoundedSemaphore_acquire_attempt ops self c))"
proof (cases "c (self_key self)")
  case None
  then show ?thesis
    using assms by (simp add: sem_acquire_attempt_absent sem_bounded_set)
next
  case (Some e)
  from sem_bounded_present [OF assms Some] obtain a
    where a: "e_value e = PInt a" "0 \<le> a" "a \<le> sem_value self" .
  show ?thesis
    using assms a by (simp add: sem_acquire_attempt_present [of c self e a] sem_bounded_set Some)
qed

lemma sem_bounded_release:
  assumes "sem_bounded self c"
  shows "sem_bounded self (snd (BoundedSemaphore_release ops self c))"
proof (cases "c (self_key self)")
  case None
  then show ?thesis
    using assms by (simp add: sem_release_absent)
next
  case (Some e)
  from sem_bounded_present [OF assms Some] obtain a
    where a: "e_value e = PInt a" "0 \<le> a" "a \<le> sem_value self" .
  show ?thesis
    using assms a by (simp add: sem_release_present [of c self e a] sem_bounded_set Some)
qed

lemma sem_bounded_expire:
  assumes "sem_bounded self c"
  shows "sem_bounded self (cache_expire c (self_key self))"
  using assms by (auto simp: sem_bounded_def cache_expire_def split: option.splits)

lemma sem_bounded_step:
  assumes "sem_bounded self c"
  shows "sem_bounded self (sem_step ops self c ev)"
  using assms sem_bounded_acquire sem_bounded_release sem_bounded_expire
  by (cases ev) (simp_all add: sem_step_def)

lemma sem_bounded_run:
  assumes "sem_bounded self c"
  shows "sem_bounded self (sem_run ops self c evs)"
  using assms unfolding sem_run_def
  by (induction evs arbitrary: c) (simp_all add: sem_bounded_step)

text \<open>
  C3. Starting from an absent key, after any sequence of transactions of \<^verbatim>\<open>acquire\<close>
  and \<^verbatim>\<open>release\<close> (and expiries of the entry), what is stored at the key is an integer
  \<open>available\<close> with \<open>0 \<le> available \<le> max_value\<close>, or the key is absent and the default
  \<open>max_value\<close> is read.
\<close>

theorem BoundedSemaphore_bound:
  assumes "c (self_key self) = None"
  shows "sem_bounded self (sem_run ops self c evs)"
  using sem_bounded_run [of self c ops evs] sem_bounded_absent [of c self] assms by simp


theorem BoundedSemaphore_bound_witness:
  "sem_bounded \<lparr>self_key = ''max-connections'', self_expire = None, self_tag = None, sem_value = 2\<rparr>
     (sem_run exact_ops \<lparr>self_key = ''max-connections'', self_expire = None, self_tag = None, sem_value = 2\<rparr>
        (Map.empty :: real cache) [SemAcquire, SemAcquire, SemAcquire, SemRelease, SemRelease, SemRelease]) \<and>
   cache_get
     (sem_run exact_ops \<lparr>self_key = ''max-connections'', self_expire = None, self_tag = None, sem_value = 2\<rparr>
        (Map.empty :: real cache) [SemAcquire, SemAcquire, SemAcquire, SemRelease, SemRelease, SemRelease])
     ''max-connections'' PNone = PInt 2"
  using BoundedSemaphore_bound
    [of "Map.empty :: real cache" "\<lparr>self_key = ''max-connections'', self_expire = None, self_tag = None, sem_value = 2\<rparr>"
        exact_ops "[SemAcquire, SemAcquire, SemAcquire, SemRelease, SemRelease, SemRelease]"]
  by (simp add: sem_run_def sem_step_def BoundedSemaphore_acquire_attempt_def
      BoundedSemaphore_release_def transact_def cache_get_def cache_set_def)

section \<open>RLock\<close>

lemma py_eq_PStr: "py_str_eq s v = (v = PStr s)"
  by (cases v) auto

lemma RLock_release_state:
  assumes "cache_get c (self_key self) (PTuple [PNone, PInt 0]) = PTuple [owner, PInt depth]"
  shows "RLock_release ops caller self c =
           (if owner = PStr (rlock_value self) \<and> 0 < depth
            then (Inr (), cache_set c (self_key self) (PTuple [owner, PInt (depth - 1)])
                            (self_expire self) (self_tag self))
            else (Inl (AssertionError ''cannot release un-acquired lock''), c))"
  using assms
  by (simp add: RLock_release_def transact_def py_eq_PStr)

lemma RLock_acquire_attempt_state:
  assumes "cache_get c (self_key self) (PTuple [PNone, PInt 0]) = PTuple [owner, PInt depth]"
  shows "RLock_acquire_attempt ops caller self c =
           (if owner = PStr (rlock_value self) \<or> depth = 0
            then (Inr True, cache_set c (self_key self)
                              (PTuple [PStr (rlock_value self), PInt (depth + 1)])
                              (self_expire self) (self_tag self))
            else (Inr False, c))"
  using assms
  by (simp add: RLock_acquire_attempt_def transact_def py_eq_PStr)

lemma RLock_acquire_returns:
  assumes "RLock_acquire_attempt ops caller self c = (Inr True, c')"
  shows "RLock_acquire ops caller self c = Some (Inr (), c')"
  by (subst RLock_acquire.simps) (simp add: assms)

lemma RLock_acquire_free_or_own:
  assumes "cache_get c (self_key self) (PTuple [PNone, PInt 0]) = PTuple [owner, PInt depth]"
    and "owner = PStr (rlock_value self) \<or> depth = 0"
  shows "RLock_acquire_attempt ops caller self c =
           (Inr True, cache_set c (self_key self)
                              (PTuple [PStr (rlock_value self), PInt (depth + 1)])
                              (self_expire self) (self_tag self))"
  using RLock_acquire_attempt_state [of c self owner depth ops caller] assms by simp

text \<open>
  C2. \<^verbatim>\<open>RLock.release\<close> reads \<open>(owner, depth)\<close> with the default \<open>(None, 0)\<close>. For a depth
  that is not negative, it raises the assertion error \<^verbatim>\<open>cannot release un-acquired lock\<close>
  exactly when the owner is not the token of the object or the depth is \<open>0\<close>, and the
  cache is then as it was; otherwise it stores \<open>(owner, depth - 1)\<close>.
\<close>

theorem RLock_release_without_ownership:
  assumes "cache_get c (self_key self) (PTuple [PNone, PInt 0]) = PTuple [owner, PInt depth]"
    and "0 \<le> depth"
  shows "RLock_release ops caller self c =
           (if owner \<noteq> PStr (rlock_value self) \<or> depth = 0
            then (Inl (AssertionError ''cannot release un-acquired lock''), c)
            else (Inr (), cache_set c (self_key self) (PTuple [owner, PInt (depth - 1)])
                            (self_expire self) (self_tag self)))"
  using assms(2) by (auto simp: RLock_release_state [OF assms(1)])

theorem RLock_release_without_ownership_witness:
  "RLock_release exact_ops \<lparr>pid = 7, tid = 1\<rparr>
     \<lparr>self_key = ''user-123'', self_expire = None, self_tag = None, rlock_value = ''7-1''\<rparr>
     Map.empty
   = (Inl (AssertionError ''cannot release un-acquired lock''), Map.empty) \<and>
   RLock_release exact_ops \<lparr>pid = 7, tid = 1\<rparr>
     \<lparr>self_key = ''user-123'', self_expire = None, self_tag = None, rlock_value = ''7-1''\<rparr>
     (cache_set Map.empty ''user-123'' (PTuple [PStr ''7-1'', PInt 2]) None None)
   = (Inr (),
      cache_set (cache_set Map.empty ''user-123'' (PTuple [PStr ''7-1'', PInt 2]) None None)
        ''user-123'' (PTuple [PStr ''7-1'', PInt 1]) None None)"
  using RLock_release_without_ownership [of Map.empty
      "\<lparr>self_key = ''user-123'', self_expire = None, self_tag = None, rlock_value = ''7-1''\<rparr>"
      PNone 0 exact_ops "\<lparr>pid = 7, tid = 1\<rparr>"]
    RLock_release_without_ownership
      [of "cache_set Map.empty ''user-123'' (PTuple [PStr ''7-1'', PInt 2]) None None"
      "\<lparr>self_key = ''user-123'', self_expire = None, self_tag = None, rlock_value = ''7-1''\<rparr>"
      "PStr ''7-1''" 2 exact_ops "\<lparr>pid = 7, tid = 1\<rparr>"]
  by (simp add: cache_get_absent cache_get_set_same)

text \<open>
  C10. The token of an \<^verbatim>\<open>RLock\<close> is made by the constructor from the process and thread
  that construct it (\<open>t0\<close>), and \<^verbatim>\<open>acquire\<close> and \<^verbatim>\<open>release\<close> compare and store that token
  whichever thread calls them: on an absent key, \<^verbatim>\<open>acquire\<close> called by \<open>t1\<close> returns with
  depth \<open>1\<close>, \<^verbatim>\<open>acquire\<close> called by \<open>t2\<close> through the same object reenters with depth
  \<open>2\<close>, and \<^verbatim>\<open>release\<close> called by \<open>t3\<close> succeeds, the owner being the token of \<open>t0\<close>
  throughout.
\<close>

theorem RLock_token_of_constructor:
  assumes "c k = None"
  shows
    "let self = fst (RLock_init t0 c k ex tg);
         token = PStr (str_int (pid t0) @ ''-'' @ str_int (tid t0));
         c1 = snd (RLock_acquire_attempt ops t1 self c);
         c2 = snd (RLock_acquire_attempt ops t2 self c1);
         c3 = snd (RLock_release ops t3 self c2)
     in RLock_acquire ops t1 self c = Some (Inr (), c1) \<and>
        cache_get c1 k (PTuple [PNone, PInt 0]) = PTuple [token, PInt 1] \<and>
        RLock_acquire ops t2 self c1 = Some (Inr (), c2) \<and>
        cache_get c2 k (PTuple [PNone, PInt 0]) = PTuple [token, PInt 2] \<and>
        RLock_release ops t3 self c2 = (Inr (), c3) \<and>
        cache_get c3 k (PTuple [PNone, PInt 0]) = PTuple [token, PInt 1]"
proof -
  define self where "self = fst (RLock_init t0 c k ex tg)"
  define tok where "tok = str_int (pid t0) @ ''-'' @ str_int (tid t0)"
  have key: "self_key self = k" and ex: "self_expire self = ex" and tg: "self_tag self = tg"
    and val: "rlock_value self = tok"
    by (simp_all add: self_def tok_def RLock_init_def)
  let ?d = "PTuple [PNone, PInt 0]"
  define c1 where "c1 = cache_set c k (PTuple [PStr tok, PInt 1]) ex tg"
  define c2 where "c2 = cache_set c1 k (PTuple [PStr tok, PInt 2]) ex tg"
  define c3 where "c3 = cache_set c2 k (PTuple [PStr tok, PInt 1]) ex tg"
  have g0: "cache_get c (self_key self) ?d = PTuple [PNone, PInt 0]"
    using assms by (simp add: key cache_get_absent)
  have g1: "cache_get c1 (self_key self) ?d = PTuple [PStr tok, PInt 1]"
    by (simp add: key c1_def cache_get_set_same)
  have g2: "cache_get c2 (self_key self) ?d = PTuple [PStr tok, PInt 2]"
    by (simp add: key c2_def cache_get_set_same)
  have g3: "cache_get c3 (self_key self) ?d = PTuple [PStr tok, PInt 1]"
    by (simp add: key c3_def cache_get_set_same)
  have a1: "RLock_acquire_attempt ops t1 self c = (Inr True, c1)"
    using RLock_acquire_free_or_own [of c self PNone 0 ops t1] g0
    by (simp add: key ex tg val c1_def)
  have a2: "RLock_acquire_attempt ops t2 self c1 = (Inr True, c2)"
    using RLock_acquire_free_or_own [of c1 self "PStr tok" 1 ops t2] g1
    by (simp add: key ex tg val c2_def)
  have r3: "RLock_release ops t3 self c2 = (Inr (), c3)"
    using RLock_release_state [of c2 self "PStr tok" 2 ops t3] g2
    by (simp add: key ex tg val c3_def)
  show ?thesis
    unfolding Let_def self_def [symmetric] tok_def [symmetric]
    using a1 a2 r3 g1 g2 g3 RLock_acquire_returns [OF a1] RLock_acquire_returns [OF a2]
    by (simp add: key)
qed

theorem RLock_token_of_constructor_witness:
  "RLock_acquire exact_ops \<lparr>pid = 7, tid = 2\<rparr>
     (fst (RLock_init \<lparr>pid = 7, tid = 1\<rparr> (Map.empty :: real cache) ''user-123'' None None))
     (snd (RLock_acquire_attempt exact_ops \<lparr>pid = 7, tid = 1\<rparr>
       (fst (RLock_init \<lparr>pid = 7, tid = 1\<rparr> (Map.empty :: real cache) ''user-123'' None None)) (Map.empty :: real cache)))
   = Some (Inr (),
       snd (RLock_acquire_attempt exact_ops \<lparr>pid = 7, tid = 2\<rparr>
         (fst (RLock_init \<lparr>pid = 7, tid = 1\<rparr> (Map.empty :: real cache) ''user-123'' None None))
         (snd (RLock_acquire_attempt exact_ops \<lparr>pid = 7, tid = 1\<rparr>
           (fst (RLock_init \<lparr>pid = 7, tid = 1\<rparr> (Map.empty :: real cache) ''user-123'' None None)) (Map.empty :: real cache)))))
   \<and> cache_get
       (snd (RLock_acquire_attempt exact_ops \<lparr>pid = 7, tid = 2\<rparr>
         (fst (RLock_init \<lparr>pid = 7, tid = 1\<rparr> (Map.empty :: real cache) ''user-123'' None None))
         (snd (RLock_acquire_attempt exact_ops \<lparr>pid = 7, tid = 1\<rparr>
           (fst (RLock_init \<lparr>pid = 7, tid = 1\<rparr> (Map.empty :: real cache) ''user-123'' None None)) (Map.empty :: real cache)))))
       ''user-123'' (PTuple [PNone, PInt 0])
     = PTuple [PStr ''7-1'', PInt 2]"
proof -
  have s1: "str_int 7 = ''7''" and s2: "str_int 1 = ''1''"
    by (simp_all add: str_int_def str_nat.simps digit_char_def)
  show ?thesis
    using RLock_token_of_constructor [of "Map.empty :: real cache" "''user-123''" "\<lparr>pid = 7, tid = 1\<rparr>" None None
        exact_ops "\<lparr>pid = 7, tid = 1\<rparr>" "\<lparr>pid = 7, tid = 2\<rparr>" "\<lparr>pid = 7, tid = 2\<rparr>"]
    by (simp add: Let_def s1 s2)
qed


section \<open>throttle: an absent key\<close>

lemma wrapper_body_absent:
  assumes "c (cl_key cl) = None"
  shows "wrapper_body ops args cl w c = Inl TypeError"
  using assms by (simp add: wrapper_body_def cache_get_absent)


text \<open>
  C9. \<^verbatim>\<open>wrapper\<close> reads its key with no default. When the key is absent the read gives
  \<^verbatim>\<open>None\<close>, unpacking it into \<open>(last, tally)\<close> raises \<^verbatim>\<open>TypeError\<close>, the cache stays
  as it was (the bucket is not initialised again), and the decorated function is not
  called.
\<close>

theorem throttle_wrapper_absent_key:
  assumes "c (cl_key cl) = None"
  shows "transact (wrapper_body ops args cl w) c = (Inl TypeError, c) \<and>
         wrapper_loop ops args cl w c = Some (Inl TypeError, w, c) \<and>
         throttle_wrapper ops args cl func a w c = Some (Inl TypeError, w, c)"
proof -
  have t: "transact (wrapper_body ops args cl w) c = (Inl TypeError, c)"
    using assms by (simp add: transact_def wrapper_body_absent)
  have l: "wrapper_loop ops args cl w c = Some (Inl TypeError, w, c)"
    by (subst wrapper_loop.simps) (simp add: t)
  show ?thesis
    using t l by (simp add: throttle_wrapper_def)
qed

text \<open>
  The example: the entry written by the decorator with a time to live of 60 seconds has
  expired when the first call comes.
\<close>

theorem throttle_wrapper_absent_key_witness:
  "throttle_wrapper exact_ops
     \<lparr>t_count = PInt 1, t_seconds = PInt 1, t_name = Some ''int_time'', t_expire = Some 60,
      t_tag = Some ''limits'', time_func = time_time, sleep_func = time_sleep\<rparr>
     \<lparr>cl_rate = 1, cl_key = ''int_time''\<rparr>
     (\<lambda>a w c. (Inr (PInt 0 :: real pyval), w, c)) () 61
     (cache_expire
        (cache_set Map.empty ''int_time'' (PTuple [PFloat 0, PInt 1]) (Some 60) (Some ''limits''))
        ''int_time'')
   = Some (Inl TypeError, 61, Map.empty)"
proof -
  have gone: "cache_expire
        (cache_set Map.empty ''int_time'' (PTuple [PFloat 0, PInt 1]) (Some 60) (Some ''limits''))
        ''int_time'' = (Map.empty :: real cache)"
    by (simp add: cache_expire_def cache_set_def)
  show ?thesis
    using throttle_wrapper_absent_key [of "Map.empty :: real cache"
      "\<lparr>cl_rate = 1, cl_key = ''int_time''\<rparr>" exact_ops
      "\<lparr>t_count = PInt 1, t_seconds = PInt 1, t_name = Some ''int_time'', t_expire = Some 60,
      t_tag = Some ''limits'', time_func = time_time, sleep_func = time_sleep\<rparr>" 61
      "(\<lambda>a w c. (Inr (PInt 0 :: real pyval), w, c))" "()"]
    by (simp add: gone)
qed

section \<open>throttle: the tag\<close>

lemma wrapper_body_writes_no_tag:
  assumes "wrapper_body ops args cl w c = Inr (delay, c')"
  shows "c' = c \<or> (\<exists>v. c' = cache_set c (cl_key cl) v (t_expire args) None)"
proof -
  obtain lastv tally where u: "unpack2 (cache_get c (cl_key cl) PNone) = Inr (lastv, tally)"
    using assms by (cases "unpack2 (cache_get c (cl_key cl) PNone)") (auto simp: wrapper_body_def)
  obtain elapsed where e: "py_sub ops (time_func args w) lastv = Inr elapsed"
    using assms u by (cases "py_sub ops (time_func args w) lastv") (auto simp: wrapper_body_def)
  obtain accrued where a: "py_mul_float ops elapsed (cl_rate cl) = Inr accrued"
    using assms u e by (cases "py_mul_float ops elapsed (cl_rate cl)") (auto simp: wrapper_body_def)
  obtain tally' where t: "py_add_float ops tally accrued = Inr tally'"
    using assms u e a by (cases "py_add_float ops tally accrued") (auto simp: wrapper_body_def)
  obtain over where ov: "py_float_gt ops tally' (t_count args) = Inr over"
    using assms u e a t
    by (cases "py_float_gt ops tally' (t_count args)") (auto simp: wrapper_body_def)
  show ?thesis
  proof (cases over)
    case True
    then show ?thesis
      using assms u e a t ov
      by (cases "py_sub ops (t_count args) (PInt 1)") (auto simp: wrapper_body_def)
  next
    case False
    show ?thesis
    proof (cases "fl_cmp_int ops tally' 1 = CmpGT \<or> fl_cmp_int ops tally' 1 = CmpEQ")
      case True
      then show ?thesis
        using assms u e a t ov False by (auto simp: wrapper_body_def)
    next
      case no: False
      then show ?thesis
        using assms u e a t ov False
        by (cases "float_div ops (fl_sub ops (fl_of_int ops 1) tally') (cl_rate cl)")
           (auto simp: wrapper_body_def)
    qed
  qed
qed

text \<open>
  C5 fails in the code. The decorator is given the tag \<^verbatim>\<open>limits\<close> and its own write
  passes it on; the write of the first call through \<^verbatim>\<open>wrapper\<close> passes no tag, and the
  entry is stored without one. The numbers of the example are computed without rounding
  by the doubles too.
\<close>

theorem throttle_wrapper_drops_tag:
  "transact
     (wrapper_body exact_ops
        \<lparr>t_count = PInt 1, t_seconds = PInt 1, t_name = Some ''int_time'', t_expire = Some 60,
         t_tag = Some ''limits'', time_func = time_time, sleep_func = time_sleep\<rparr>
        \<lparr>cl_rate = 1, cl_key = ''int_time''\<rparr> 0)
     (cache_set Map.empty ''int_time'' (PTuple [PFloat 0, PInt 1]) (Some 60) (Some ''limits''))
   = (Inr (PInt 0),
      cache_set
        (cache_set Map.empty ''int_time'' (PTuple [PFloat 0, PInt 1]) (Some 60) (Some ''limits''))
        ''int_time'' (PTuple [PFloat 0, PFloat 0]) (Some 60) None)"
  by (simp add: transact_def wrapper_body_def cache_get_set_same time_time_def
      int_to_float_small exact_ops_def real_cmp_def Let_def)

section \<open>throttle: the token bucket\<close>

lemma accrue:
  assumes "is_num tally"
  shows "py_add_float ops tally x = Inr (fl_add ops (num_of ops tally) x)"
  using assms by (cases tally) (simp_all add: int_to_float_num)

lemma throttle_decorator_closure:
  assumes "throttle_decorator ops args func w c = Inr (cl, c')"
  shows "throttle_rate ops args = Inr (cl_rate cl) \<and> cl_key cl = throttle_key args func \<and>
         c' = cache_set c (throttle_key args func) (PTuple [time_func args w, t_count args])
                (t_expire args) (t_tag args)"
  using assms
  by (cases "throttle_rate ops args") (auto simp: throttle_decorator_def Let_def)


lemma wrapper_body_state:
  assumes "cache_get c (cl_key cl) PNone = PTuple [PFloat lastv, tally]" and "is_num tally"
    and "time_func args w = PFloat now" and "t_count args = PInt count"
  shows "wrapper_body ops args cl w c =
          (let tally' = fl_add ops (num_of ops tally)
                          (fl_mul ops (fl_sub ops now lastv) (cl_rate cl))
           in if fl_cmp_int ops tally' count = CmpGT
              then Inr (PInt 0, cache_set c (cl_key cl) (PTuple [PFloat now, PInt (count - 1)])
                                  (t_expire args) None)
              else if fl_cmp_int ops tally' 1 = CmpGT \<or> fl_cmp_int ops tally' 1 = CmpEQ
              then Inr (PInt 0,
                        cache_set c (cl_key cl)
                          (PTuple [PFloat now, PFloat (fl_sub ops tally' (fl_of_int ops 1))])
                          (t_expire args) None)
              else if fl_cmp_int ops (cl_rate cl) 0 = CmpEQ then Inl ZeroDivisionError
              else Inr (PFloat (fl_div ops (fl_sub ops (fl_of_int ops 1) tally') (cl_rate cl)),
                        c))"
  using assms
  by (simp add: wrapper_body_def Let_def accrue float_div_def)

lemma wrapper_loop_exit:
  assumes "transact (wrapper_body ops args cl w) c = (Inr (PInt 0), c')"
  shows "wrapper_loop ops args cl w c = Some (Inr (), w, c')"
  by (subst wrapper_loop.simps) (simp add: assms)


lemma wrapper_loop_delay:
  assumes "transact (wrapper_body ops args cl w) c = (Inr (PFloat d), c')"
  shows "wrapper_loop ops args cl w c =
           (if fl_cmp_int ops d 0 \<noteq> CmpEQ
            then (case sleep_func args (PFloat d) w of
                    Inl e \<Rightarrow> Some (Inl e, w, c')
                  | Inr w' \<Rightarrow> wrapper_loop ops args cl w' c')
            else Some (Inr (), w, c'))"
  by (subst wrapper_loop.simps) (simp add: assms)




text \<open>
  In arithmetic without rounding, with \<^verbatim>\<open>time.time\<close> and \<^verbatim>\<open>time.sleep\<close> and a positive
  rate, the loop of one caller runs at most twice: after the sleep exactly one token has
  accrued.
\<close>

lemma wrapper_loop_returns_on_clock:
  assumes "t_count args = PInt count" and "0 < count" and "0 < cl_rate cl"
    and "cache_get c (cl_key cl) PNone = PTuple [PFloat lastv, tally]" and "is_num tally"
    and "time_func args = time_time" and "sleep_func args = time_sleep"
  shows "\<exists>w' c'. wrapper_loop exact_ops args cl w c = Some (Inr (), w', c') \<and> w \<le> w'"
proof -
  define rate where "rate = cl_rate cl"
  define tl where "tl = (\<lambda>t. num_of exact_ops tally + (t - lastv) * rate)"
  have rate0: "0 < rate"
    using assms(3) by (simp add: rate_def)
  have body: "wrapper_body exact_ops args cl t c =
      (if tl t > real_of_int count
       then Inr (PInt 0, cache_set c (cl_key cl) (PTuple [PFloat t, PInt (count - 1)])
                           (t_expire args) None)
       else if tl t \<ge> 1
       then Inr (PInt 0, cache_set c (cl_key cl) (PTuple [PFloat t, PFloat (tl t - 1)])
                           (t_expire args) None)
       else Inr (PFloat ((1 - tl t) / rate), c))" for t
  proof -
    have now: "time_func args t = PFloat t"
      by (simp add: assms(6) time_time_def)
    show ?thesis
      using wrapper_body_state [of c cl lastv tally args t t count exact_ops,
          OF assms(4,5) now assms(1)] rate0
      by (auto simp: Let_def exact_ops_def real_cmp_def tl_def rate_def)
  qed
  have exit_now: "\<exists>c'. wrapper_loop exact_ops args cl t c = Some (Inr (), t, c')"
    if "tl t \<ge> 1" for t
  proof -
    have "\<exists>c'. transact (wrapper_body exact_ops args cl t) c = (Inr (PInt 0), c')"
      using that by (simp add: transact_def body)
    then show ?thesis using wrapper_loop_exit [of exact_ops args cl t c] by auto
  qed
  show ?thesis
  proof (cases "tl w \<ge> 1")
    case True
    then show ?thesis using exit_now [of w] by auto
  next
    case False
    define d where "d = (1 - tl w) / rate"
    have dpos: "0 < d" using False rate0 by (simp add: d_def)
    have t: "transact (wrapper_body exact_ops args cl w) c = (Inr (PFloat d), c)"
    proof -
      have "\<not> tl w > real_of_int count"
        using False assms(2) by simp
      then show ?thesis using False by (simp add: transact_def body d_def)
    qed
    have sl: "sleep_func args (PFloat d) w = Inr (w + d)"
      using dpos by (simp add: assms(7))
    have truthy: "fl_cmp_int exact_ops d 0 \<noteq> CmpEQ"
      using dpos by (simp add: exact_ops_def real_cmp_def)
    have loop: "wrapper_loop exact_ops args cl w c = wrapper_loop exact_ops args cl (w + d) c"
      using wrapper_loop_delay [OF t] truthy sl by simp
    have dr: "d * rate = 1 - tl w"
      using rate0 by (simp add: d_def)
    have "tl (w + d) = tl w + d * rate"
      by (simp add: tl_def algebra_simps)
    then have "tl (w + d) = 1"
      using dr by simp
    then obtain c' where "wrapper_loop exact_ops args cl (w + d) c = Some (Inr (), w + d, c')"
      using exit_now [of "w + d"] by auto
    then show ?thesis using loop dpos by auto
  qed
qed

section \<open>Where the stored state is created\<close>

lemma throttle_decorator_write:
  assumes "throttle_decorator ops args func w c = Inr (cl, c')"
  shows "c' = cache_set c (throttle_key args func) (PTuple [time_func args w, t_count args])
                (t_expire args) (t_tag args)"
  using throttle_decorator_closure [OF assms] by simp

text \<open>
  C6, as amended. The constructors of \<^verbatim>\<open>Averager\<close>, \<^verbatim>\<open>Lock\<close>, \<^verbatim>\<open>RLock\<close> and
  \<^verbatim>\<open>BoundedSemaphore\<close>, and the decorator of \<^verbatim>\<open>barrier\<close> over any of them as its lock
  factory, leave the cache as it is; on an absent key the first \<^verbatim>\<open>add\<close>, or the first
  iteration of \<^verbatim>\<open>acquire\<close>, creates the entry. The decorator of \<^verbatim>\<open>throttle\<close> does
  write: it stores the full bucket \<open>(now, count)\<close> under the key, with \<^verbatim>\<open>expire\<close> and
  \<^verbatim>\<open>tag\<close>.
\<close>

theorem constructors_leave_cache:
  "snd (Averager_init c k ex tg) = c \<and>
   snd (Lock_init c k ex tg) = c \<and>
   snd (RLock_init t c k ex tg) = c \<and>
   snd (BoundedSemaphore_init c k v ex tg) = c \<and>
   snd (barrier_decorator Lock_init name ex tg func c) = c \<and>
   snd (barrier_decorator (RLock_init t) name ex tg func c) = c \<and>
   snd (barrier_decorator (\<lambda>c k. BoundedSemaphore_init c k 1) name ex tg func c) = c \<and>
   (c k = None \<and> is_num x \<longrightarrow>
      snd (Averager_add ops (fst (Averager_init c k ex tg)) x c) k \<noteq> None) \<and>
   (c k = None \<longrightarrow>
      snd (Lock_acquire_attempt (fst (Lock_init c k ex tg)) c) k \<noteq> None) \<and>
   (c k = None \<longrightarrow>
      snd (RLock_acquire_attempt ops t' (fst (RLock_init t c k ex tg)) c) k \<noteq> None) \<and>
   (c k = None \<and> 0 < v \<longrightarrow>
      snd (BoundedSemaphore_acquire_attempt ops (fst (BoundedSemaphore_init c k v ex tg)) c) k
        \<noteq> None) \<and>
   (throttle_decorator ops args func w c = Inr (cl, c') \<longrightarrow>
      c' = cache_set c (throttle_key args func) (PTuple [time_func args w, t_count args])
             (t_expire args) (t_tag args))"
proof -
  have inits: "snd (Averager_init c k ex tg) = c" "snd (Lock_init c k ex tg) = c"
    "snd (RLock_init t c k ex tg) = c" "snd (BoundedSemaphore_init c k v ex tg) = c"
    by (simp_all add: Averager_init_def Lock_init_def RLock_init_def BoundedSemaphore_init_def)
  have barriers: "snd (barrier_decorator Lock_init name ex tg func c) = c"
    "snd (barrier_decorator (RLock_init t) name ex tg func c) = c"
    "snd (barrier_decorator (\<lambda>c k. BoundedSemaphore_init c k 1) name ex tg func c) = c"
    by (simp_all add: barrier_decorator_def Let_def Lock_init_def RLock_init_def
        BoundedSemaphore_init_def)
  have avg: "snd (Averager_add ops (fst (Averager_init c k ex tg)) x c) k \<noteq> None"
    if "c k = None" and "is_num x"
    using that Averager_add_state [of c "fst (Averager_init c k ex tg)" ops "fl_of_int ops 0" 0 x]
    by (simp add: Averager_init_def Averager_default_def cache_get_absent cache_set_def)
  have lock: "snd (Lock_acquire_attempt (fst (Lock_init c k ex tg)) c) k \<noteq> None"
    if "c k = None"
    using that by (simp add: Lock_init_def Lock_acquire_attempt_def cache_add_def)
  have rlock: "snd (RLock_acquire_attempt ops t' (fst (RLock_init t c k ex tg)) c) k \<noteq> None"
    if "c k = None"
    using that RLock_acquire_free_or_own [of c "fst (RLock_init t c k ex tg)" PNone 0 ops t']
    by (simp add: RLock_init_def cache_get_absent cache_set_def)
  have sem: "snd (BoundedSemaphore_acquire_attempt ops
                    (fst (BoundedSemaphore_init c k v ex tg)) c) k \<noteq> None"
    if "c k = None" and "0 < v"
    using that sem_acquire_attempt_absent [of c "fst (BoundedSemaphore_init c k v ex tg)" ops]
    by (simp add: BoundedSemaphore_init_def cache_set_def)
  show ?thesis
    using inits barriers avg lock rlock sem throttle_decorator_write [of ops args func w c cl c']
    by blast
qed

theorem constructors_leave_cache_witness:
  "snd (Averager_init (Map.empty :: real cache) ''latency'' None None) = Map.empty \<and>
   snd (RLock_init \<lparr>pid = 7, tid = 1\<rparr> (Map.empty :: real cache) ''latency'' None None)
     = Map.empty \<and>
   snd (Averager_add exact_ops
          (fst (Averager_init (Map.empty :: real cache) ''latency'' None None)) (PFloat 0.080)
          Map.empty) ''latency'' \<noteq> None \<and>
   snd (Lock_acquire_attempt (fst (Lock_init (Map.empty :: real cache) ''latency'' None None))
          (Map.empty :: real cache))
     ''latency'' \<noteq> None \<and>
   snd (BoundedSemaphore_acquire_attempt exact_ops
          (fst (BoundedSemaphore_init (Map.empty :: real cache) ''latency'' 2 None None))
          Map.empty)
     ''latency'' \<noteq> None"
  using constructors_leave_cache [where c = "Map.empty :: real cache" and k = "''latency''"
      and ex = None and tg = None and t = "\<lparr>pid = 7, tid = 1\<rparr>"
      and t' = "\<lparr>pid = 7, tid = 2\<rparr>" and v = 2 and ops = exact_ops
      and x = "PFloat 0.080" and name = None
      and func = "\<lparr>f_module = ''__main__'', f_qualname = Some ''int_time'', f_name = ''int_time''\<rparr>"
      and args = "\<lparr>t_count = PInt 1, t_seconds = PInt 1, t_name = Some ''int_time'', t_expire = Some 60,
      t_tag = Some ''limits'', time_func = time_time, sleep_func = time_sleep\<rparr>"
      and w = 0
      and cl = "\<lparr>cl_rate = 1, cl_key = ''int_time''\<rparr>"
      and c' = "(cache_set Map.empty ''int_time'' (PTuple [PFloat 0, PInt 1]) (Some 60) (Some ''limits''))"]
  by simp

text \<open>
  C6, as stated, fails for \<^verbatim>\<open>throttle\<close>: decorating a function on an empty cache
  leaves a cache that is not empty.
\<close>

theorem throttle_decorator_writes_counterexample:
  "throttle_decorator exact_ops
     \<lparr>t_count = PInt 1, t_seconds = PInt 1, t_name = None, t_expire = None,
      t_tag = None, time_func = time_time, sleep_func = time_sleep\<rparr>
     \<lparr>f_module = ''__main__'', f_qualname = Some ''int_time'', f_name = ''int_time''\<rparr>
     0 Map.empty
   = Inr (\<lparr>cl_rate = 1, cl_key = ''__main__.int_time''\<rparr>,
          cache_set Map.empty ''__main__.int_time'' (PTuple [PFloat 0, PInt 1]) None None) \<and>
   cache_set (Map.empty :: real cache) ''__main__.int_time'' (PTuple [PFloat 0, PInt 1]) None None
     \<noteq> Map.empty"
  by (simp add: throttle_decorator_def throttle_rate_def throttle_key_def int_to_float_small
      float_div_def exact_ops_def real_cmp_def time_time_def Let_def cache_set_def)

end
